theory Spec2Isabelle
  imports Complex_Main "HOL-Library.Word" "HOL-Library.Multiset"
    "HOL-Library.List_Lexorder" "HOL-Library.Char_ord"
begin

unbundle bit_operations_syntax

section \<open>The digest of the standard library: \<open>hashlib.md5(...).hexdigest()\<close>\<close>

text \<open>
  \<open>hash_from_string\<close> calls \<open>md5(string.encode()).hexdigest()\<close>.  The digest is the
  MD5 function of RFC 1321 over the bytes of the string (a \<open>string\<close> is a byte list
  here, which is what \<open>encode()\<close> yields): 32-bit words with wrap-around addition,
  little-endian packing, 64 rounds per 64-byte block, and a lower-case hexadecimal
  rendering of the 16 digest bytes.
\<close>

type_synonym u32 = "32 word"

definition md5_K :: "u32 list" where
  "md5_K = [0xd76aa478, 0xe8c7b756, 0x242070db, 0xc1bdceee, 0xf57c0faf, 0x4787c62a, 0xa8304613, 0xfd469501, 0x698098d8, 0x8b44f7af, 0xffff5bb1, 0x895cd7be, 0x6b901122, 0xfd987193, 0xa679438e, 0x49b40821, 0xf61e2562, 0xc040b340, 0x265e5a51, 0xe9b6c7aa, 0xd62f105d, 0x02441453, 0xd8a1e681, 0xe7d3fbc8, 0x21e1cde6, 0xc33707d6, 0xf4d50d87, 0x455a14ed, 0xa9e3e905, 0xfcefa3f8, 0x676f02d9, 0x8d2a4c8a, 0xfffa3942, 0x8771f681, 0x6d9d6122, 0xfde5380c, 0xa4beea44, 0x4bdecfa9, 0xf6bb4b60, 0xbebfbc70, 0x289b7ec6, 0xeaa127fa, 0xd4ef3085, 0x04881d05, 0xd9d4d039, 0xe6db99e5, 0x1fa27cf8, 0xc4ac5665, 0xf4292244, 0x432aff97, 0xab9423a7, 0xfc93a039, 0x655b59c3, 0x8f0ccc92, 0xffeff47d, 0x85845dd1, 0x6fa87e4f, 0xfe2ce6e0, 0xa3014314, 0x4e0811a1, 0xf7537e82, 0xbd3af235, 0x2ad7d2bb, 0xeb86d391]"

definition md5_s :: "nat list" where
  "md5_s = [7,12,17,22,7,12,17,22,7,12,17,22,7,12,17,22,
            5,9,14,20,5,9,14,20,5,9,14,20,5,9,14,20,
            4,11,16,23,4,11,16,23,4,11,16,23,4,11,16,23,
            6,10,15,21,6,10,15,21,6,10,15,21,6,10,15,21]"

definition rotl32 :: "u32 \<Rightarrow> nat \<Rightarrow> u32" where
  "rotl32 w n = push_bit n w OR drop_bit (32 - n) w"

definition md5_F :: "nat \<Rightarrow> u32 \<Rightarrow> u32 \<Rightarrow> u32 \<Rightarrow> u32" where
  "md5_F i b c d =
     (if i < 16 then (b AND c) OR (NOT b AND d)
      else if i < 32 then (d AND b) OR (NOT d AND c)
      else if i < 48 then b XOR c XOR d
      else c XOR (b OR NOT d))"

definition md5_g :: "nat \<Rightarrow> nat" where
  "md5_g i =
     (if i < 16 then i
      else if i < 32 then (5 * i + 1) mod 16
      else if i < 48 then (3 * i + 5) mod 16
      else (7 * i) mod 16)"

fun md5_round :: "u32 list \<Rightarrow> nat \<Rightarrow> u32 \<times> u32 \<times> u32 \<times> u32 \<Rightarrow> u32 \<times> u32 \<times> u32 \<times> u32" where
  "md5_round M i (a, b, c, d) =
     (let f = md5_F i b c d + a + md5_K ! i + M ! md5_g i
      in (d, b + rotl32 f (md5_s ! i), b, c))"

fun md5_block :: "u32 \<times> u32 \<times> u32 \<times> u32 \<Rightarrow> u32 list \<Rightarrow> u32 \<times> u32 \<times> u32 \<times> u32" where
  "md5_block (a0, b0, c0, d0) M =
     (case fold (md5_round M) [0..<64] (a0, b0, c0, d0) of
        (a, b, c, d) \<Rightarrow> (a0 + a, b0 + b, c0 + c, d0 + d))"

definition le_bytes :: "nat \<Rightarrow> nat \<Rightarrow> nat list" where
  "le_bytes k n = map (\<lambda>i. (n div 256 ^ i) mod 256) [0..<k]"

definition md5_pad :: "nat list \<Rightarrow> nat list" where
  "md5_pad bs = bs @ [128] @ replicate ((119 - length bs mod 64) mod 64) 0
                  @ le_bytes 8 (8 * length bs mod 2 ^ 64)"

fun le_words :: "nat list \<Rightarrow> u32 list" where
  "le_words (b0 # b1 # b2 # b3 # bs) =
     word_of_nat (b0 + 256 * b1 + 65536 * b2 + 16777216 * b3) # le_words bs"
| "le_words _ = []"

definition md5_blocks :: "u32 \<times> u32 \<times> u32 \<times> u32 \<Rightarrow> u32 list \<Rightarrow> u32 \<times> u32 \<times> u32 \<times> u32" where
  "md5_blocks h ws =
     fold (\<lambda>k h'. md5_block h' (take 16 (drop (16 * k) ws))) [0..<length ws div 16] h"

definition hex_digit :: "nat \<Rightarrow> char" where
  "hex_digit n = ''0123456789abcdef'' ! n"

definition hex_byte :: "nat \<Rightarrow> string" where
  "hex_byte b = [hex_digit (b div 16), hex_digit (b mod 16)]"

definition md5_hexdigest :: "string \<Rightarrow> string" where
  "md5_hexdigest s =
     (case md5_blocks (0x67452301, 0xefcdab89, 0x98badcfe, 0x10325476)
             (le_words (md5_pad (map of_char s))) of
        (a, b, c, d) \<Rightarrow> concat (map hex_byte (concat (map (\<lambda>w. le_bytes 4 (unat w)) [a, b, c, d]))))"

section \<open>Platform values\<close>

text \<open>
  \<open>CGPoint\<close> and \<open>CGSize\<close> are the platform's structs of two floating-point numbers.
  The numbers are idealised as reals: every operation of the source on them
  (\<open>+\<close>, \<open>-\<close>, \<open>/ 2\<close>, \<open>max\<close>, \<open>int(...)\<close>, comparison) is the operation of the same
  name on \<open>real\<close>.
\<close>

datatype CGPoint = CGPoint (point_x: real) (point_y: real)

datatype CGSize = CGSize (size_width: real) (size_height: real)

text \<open>A bounding box is the Python list \<open>[x0, y0, x1, y1]\<close> of four integers.\<close>

type_synonym bbox = "int \<times> int \<times> int \<times> int"

text \<open>Python's \<open>int(x)\<close> on a float truncates towards zero.\<close>

definition py_int :: "real \<Rightarrow> int" where
  "py_int v = (if 0 \<le> v then \<lfloor>v\<rfloor> else \<lceil>v\<rceil>)"

section \<open>\<open>UIElement._set_bboxes\<close>\<close>

text \<open>
  The method assigns \<open>self.bbox\<close> and \<open>self.visible_bbox\<close>; the model returns the
  pair.  \<open>not self.position\<close> and \<open>not self.size\<close> hold exactly for \<open>None\<close> (a struct
  is truthy), and \<open>if parents_visible_bbox\<close> holds exactly for a four-element list.
\<close>

definition set_bboxes ::
  "CGPoint option \<Rightarrow> CGSize option \<Rightarrow> bbox option \<Rightarrow> bbox option \<times> bbox option" where
  "set_bboxes position size' parents_visible_bbox =
     (case position of
        None \<Rightarrow> (None, None)
      | Some p \<Rightarrow>
         (case size' of
            None \<Rightarrow> (None, None)
          | Some s \<Rightarrow>
             (let b0 = py_int (point_x p);
                  b1 = py_int (point_y p);
                  b2 = py_int (point_x p + size_width s);
                  b3 = py_int (point_y p + size_height s)
              in case parents_visible_bbox of
                   Some (p0, p1, p2, p3) \<Rightarrow>
                     if b0 > p2 \<or> b1 > p3 \<or> b2 < p0 \<or> b3 < p1
                     then (Some (b0, b1, b2, b3), None)
                     else (Some (b0, b1, b2, b3),
                           Some (max b0 p0, max b1 p1, min b2 p2, min b3 p3))
                 | None \<Rightarrow> (Some (b0, b1, b2, b3), Some (b0, b1, b2, b3)))))"

text \<open>The closed region of the plane a box covers, and its area.\<close>

fun box_region :: "bbox \<Rightarrow> (real \<times> real) set" where
  "box_region (x0, y0, x1, y1) =
     {(u, v). real_of_int x0 \<le> u \<and> u \<le> real_of_int x1 \<and> real_of_int y0 \<le> v \<and> v \<le> real_of_int y1}"

fun box_area :: "bbox \<Rightarrow> int" where
  "box_area (x0, y0, x1, y1) = (x1 - x0) * (y1 - y0)"

fun well_formed :: "bbox \<Rightarrow> bool" where
  "well_formed (x0, y0, x1, y1) \<longleftrightarrow> x0 \<le> x1 \<and> y0 \<le> y1"

section \<open>The platform's accessibility tree\<close>

text \<open>
  An accessibility element is an opaque handle whose attributes are read through the
  platform API.  The model is the finite tree of what the API reports: each attribute
  is \<open>None\<close> when the platform has no value for it.  The value attribute is a scalar,
  an array of scalars, or another accessibility element.
\<close>

datatype 'e ax_value = AXScalar string | AXArray "string list" | AXElementRef 'e

datatype AXUIElement = AXUIElement
  (AXRole: "string option")
  (AXTitle: "string option")
  (AXEnabled: "bool option")
  (AXPosition: "CGPoint option")
  (AXSize: "CGSize option")
  (AXDescription: "string option")
  (AXRoleDescription: "string option")
  (AXValue: "AXUIElement ax_value option")
  (AXChildren: "AXUIElement list option")
  (AXVisibleChildren: "AXUIElement list option")

text \<open>
  The two platform calls.  \<open>AXUIElementCopyAttributeValue\<close> yields the attribute or an
  error (\<open>None\<close>); \<open>AXUIElementCopyAttributeValues\<close> yields at most \<open>maxValues\<close>
  entries of an array attribute starting at \<open>index\<close>.
\<close>

definition AXUIElementCopyAttributeValue :: "'a option \<Rightarrow> 'a option" where
  "AXUIElementCopyAttributeValue attribute = attribute"

definition AXUIElementCopyAttributeValues :: "'a list option \<Rightarrow> nat \<Rightarrow> nat \<Rightarrow> 'a list option" where
  "AXUIElementCopyAttributeValues attribute index maxValues =
     (case attribute of None \<Rightarrow> None | Some vs \<Rightarrow> Some (take maxValues (drop index vs)))"

text \<open>
  \<open>element_attribute\<close>: for the children attribute the ranged call is tried first, and
  the plain call only when it fails; every other attribute uses the plain call.
\<close>

definition element_attribute :: "'a option \<Rightarrow> 'a option" where
  "element_attribute attribute = AXUIElementCopyAttributeValue attribute"

definition element_attribute_children :: "AXUIElement \<Rightarrow> AXUIElement list option" where
  "element_attribute_children element =
     (case AXUIElementCopyAttributeValues (AXChildren element) 0 999 of
        Some v \<Rightarrow> Some v
      | None \<Rightarrow> AXUIElementCopyAttributeValue (AXChildren element))"

text \<open>\<open>element_value\<close> unwraps a point or size value; \<open>None\<close> stays \<open>None\<close>.\<close>

definition element_value :: "'a option \<Rightarrow> 'a option" where
  "element_value v = v"

section \<open>The normalized node\<close>

datatype 'n ui_value = ValueScalar string | ValueList "string list" | ValueNode 'n

text \<open>
  The fields of a \<open>UIElement\<close> object.  \<open>center\<close> is \<open>None\<close> when the attribute was
  never assigned.  \<open>size'\<close>, \<open>value'\<close> and \<open>identifier'\<close> are the fields \<open>size\<close>, \<open>value\<close> and \<open>identifier\<close>.
\<close>

datatype UIElement = UIElement
  (role: string)
  (name: "string option")
  (enabled: bool)
  (absolute_position: "CGPoint option")
  (position: "CGPoint option")
  (size': "CGSize option")
  (bbox: "bbox option")
  (visible_bbox: "bbox option")
  (center: "(real \<times> real) option")
  (description: "string option")
  (role_description: "string option")
  (value': "UIElement ui_value option")
  (children: "UIElement list")
  (identifier': string)
  (content_identifier: string)
  (max_depth: "int option")

section \<open>The hash engine\<close>

definition hash_from_string :: "string \<Rightarrow> string" where
  "hash_from_string string = (if string = '''' then '''' else md5_hexdigest string)"

text \<open>
  Python's \<open>sep.join(items)\<close>.  Joining over a string iterates its characters, so
  \<open>a.join(b)\<close> for two strings is \<open>py_join a (map (\<lambda>c. [c]) b)\<close>.
\<close>

fun py_join :: "string \<Rightarrow> string list \<Rightarrow> string" where
  "py_join sep [] = ''''"
| "py_join sep [s] = s"
| "py_join sep (s # t # ts) = s @ sep @ py_join sep (t # ts)"

text \<open>
  Decimal digits of a natural number, and the format \<open>f"{v:.0f}"\<close>: the nearest
  integer, ties to even, with the sign of the number.
\<close>

function str_nat :: "nat \<Rightarrow> string" where
  "str_nat n =
     (if n < 10 then [''0123456789'' ! n]
      else str_nat (n div 10) @ [''0123456789'' ! (n mod 10)])"
  by pat_completeness auto
termination
  by (relation "measure (\<lambda>n. n)") auto

declare str_nat.simps [simp del]

definition round_half_even :: "real \<Rightarrow> int" where
  "round_half_even v =
     (let f = \<lfloor>v\<rfloor>; d = v - of_int f
      in if d < 1 / 2 then f else if 1 / 2 < d then f + 1 else if even f then f else f + 1)"

definition format_0f :: "real \<Rightarrow> string" where
  "format_0f v =
     (if v < 0 then ''-'' @ str_nat (nat (round_half_even (- v)))
      else str_nat (nat (round_half_even v)))"

definition str_bool :: "bool \<Rightarrow> string" where
  "str_bool b = (if b then ''True'' else ''False'')"

text \<open>
  \<open>component_hash\<close> reads \<open>self.position\<close>, \<open>self.size\<close>, \<open>self.enabled\<close> and
  \<open>self.role\<close>.
\<close>

definition component_hash :: "UIElement \<Rightarrow> string" where
  "component_hash self =
     (case position self of
        None \<Rightarrow> ''''
      | Some p \<Rightarrow>
         (case size' self of
            None \<Rightarrow> ''''
          | Some s \<Rightarrow>
             (let position_string = format_0f (point_x p) @ '';'' @ format_0f (point_y p);
                  size_string = format_0f (size_width s) @ '';'' @ format_0f (size_height s);
                  enabled_string = str_bool (enabled self);
                  role_string = role self
              in hash_from_string (position_string @ size_string @ enabled_string @ role_string))))"

text \<open>
  \<open>children_content_hash\<close>.  Its two intermediate digests are the locals
  \<open>content_hash\<close> (over the sorted content identifiers) and \<open>content_structure_hash\<close>
  (over the identifiers in the children's order).
\<close>

definition content_hash :: "UIElement list \<Rightarrow> string" where
  "content_hash cs = hash_from_string (py_join '''' (sort (map content_identifier cs)))"

definition content_structure_hash :: "UIElement list \<Rightarrow> string" where
  "content_structure_hash cs = hash_from_string (py_join '''' (map identifier' cs))"

definition children_content_hash :: "UIElement list \<Rightarrow> string" where
  "children_content_hash cs =
     (if length cs = 0 then ''''
      else if length (sort (map content_identifier cs)) = 0 then ''''
      else hash_from_string
             (py_join (content_hash cs) (map (\<lambda>c. [c]) (content_structure_hash cs))))"

text \<open>\<open>calculate_hashes\<close> stores both hashes on the node.\<close>

fun calculate_hashes :: "UIElement \<Rightarrow> UIElement" where
  "calculate_hashes (UIElement r n e ap p s b vb c d rd v cs i ci md) =
     UIElement r n e ap p s b vb c d rd v cs
       (component_hash (UIElement r n e ap p s b vb c d rd v cs i ci md))
       (children_content_hash cs) md"

section \<open>Building the tree: \<open>UIElement.__init__\<close> and \<open>_get_children\<close>\<close>

text \<open>The title has its spaces replaced by underscores.\<close>

definition replace_spaces :: "string \<Rightarrow> string" where
  "replace_spaces s = map (\<lambda>c. if c = CHR '' '' then CHR ''_'' else c) s"

text \<open>
  The first half of \<open>_get_children\<close>: the children attribute, and the visible
  children only when the children attribute is \<open>None\<close>.
\<close>

definition found_children :: "AXUIElement \<Rightarrow> AXUIElement list" where
  "found_children element =
     (let children' = element_attribute_children element;
          visible_children = element_attribute (AXVisibleChildren element)
      in case children' of
           Some cs \<Rightarrow> cs
         | None \<Rightarrow> (case visible_children of Some vs \<Rightarrow> vs | None \<Rightarrow> []))"

text \<open>
  The second half of \<open>_get_children\<close>, with the constructor as a parameter: every
  found child is built with the offset, the depth limit less one, and the visible
  box of the node.
\<close>

definition get_children ::
  "(AXUIElement \<Rightarrow> real \<Rightarrow> real \<Rightarrow> int option \<Rightarrow> bbox option \<Rightarrow> UIElement) \<Rightarrow>
   AXUIElement \<Rightarrow> real \<Rightarrow> real \<Rightarrow> int option \<Rightarrow> bbox option \<Rightarrow> UIElement list" where
  "get_children new element offset_x offset_y self_max_depth self_visible_bbox =
     (if self_max_depth = None \<or> 0 < the self_max_depth
      then map (\<lambda>child. new child offset_x offset_y
                          (case self_max_depth of None \<Rightarrow> None | Some d \<Rightarrow> Some (d - 1))
                          self_visible_bbox)
               (found_children element)
      else [])"

lemma get_children_cong [fundef_cong]:
  assumes "element = element'" "ox = ox'" "oy = oy'" "md = md'" "vb = vb'"
    and "\<And>c a b d v. c \<in> set (found_children element') \<Longrightarrow> new c a b d v = new' c a b d v"
  shows "get_children new element ox oy md vb = get_children new' element' ox' oy' md' vb'"
  using assms by (simp add: get_children_def)

lemma size_found_children:
  "c \<in> set (found_children element) \<Longrightarrow> size c < size element"
proof -
  assume c: "c \<in> set (found_children element)"
  obtain r t e p s d rd v ch vch where el: "element = AXUIElement r t e p s d rd v ch vch"
    by (cases element)
  from c have "(\<exists>xs. ch = Some xs \<and> c \<in> set xs) \<or> (\<exists>xs. vch = Some xs \<and> c \<in> set xs)"
    by (auto simp: found_children_def element_attribute_children_def element_attribute_def
          AXUIElementCopyAttributeValue_def AXUIElementCopyAttributeValues_def el
          split: option.splits dest: in_set_takeD)
  then show ?thesis
  proof
    assume "\<exists>xs. ch = Some xs \<and> c \<in> set xs"
    then obtain xs where "ch = Some xs" "c \<in> set xs" by blast
    then show ?thesis
      using size_list_estimation' [of c xs "size c" size] by (simp add: el)
  next
    assume "\<exists>xs. vch = Some xs \<and> c \<in> set xs"
    then obtain xs where "vch = Some xs" "c \<in> set xs" by blast
    then show ?thesis
      using size_list_estimation' [of c xs "size c" size] by (simp add: el)
  qed
qed

lemma size_value_element:
  "AXValue element = Some (AXElementRef v) \<Longrightarrow> size v < size element"
  by (cases element) simp

text \<open>
  The constructor.  The object's fields are the \<open>self_\<close> variables.  Three points of
  the source are kept as they are:
  \<^item> \<open>self.position = start_position\<close> binds the same object, so the in-place
    subtraction of the offset changes \<open>start_position\<close> too (only
    \<open>self.absolute_position\<close> is a copy); from there on \<open>start_position\<close> is the
    adjusted point;
  \<^item> when the position or the size is \<open>None\<close> the constructor returns right after
    \<open>_set_bboxes\<close>, with the fields assigned so far and the initial values of the
    others;
  \<^item> an element-valued value attribute is built by \<open>UIElement(attribute_value,
    offset_x, offset_y)\<close>, that is with the default depth limit \<open>None\<close> and no
    parent box.
\<close>

function UIElement_init ::
  "AXUIElement \<Rightarrow> real \<Rightarrow> real \<Rightarrow> int option \<Rightarrow> bbox option \<Rightarrow> UIElement" where
  "UIElement_init element offset_x offset_y self_max_depth parents_visible_bbox =
     (let self_role = (case element_attribute (AXRole element) of None \<Rightarrow> ''No role'' | Some r \<Rightarrow> r);
          self_name = (case element_attribute (AXTitle element) of None \<Rightarrow> None
                       | Some t \<Rightarrow> Some (replace_spaces t));
          self_enabled = (case element_attribute (AXEnabled element) of None \<Rightarrow> False | Some b \<Rightarrow> b);
          position_attr = element_attribute (AXPosition element);
          size_attr = element_attribute (AXSize element);
          start_position0 = element_value position_attr;
          offset_x1 = (case start_position0 of
                         Some sp \<Rightarrow> if self_role = ''AXWindow'' then point_x sp else offset_x
                       | None \<Rightarrow> offset_x);
          offset_y1 = (case start_position0 of
                         Some sp \<Rightarrow> if self_role = ''AXWindow'' then point_y sp else offset_y
                       | None \<Rightarrow> offset_y);
          self_absolute_position = start_position0;
          self_position = (case start_position0 of
                             None \<Rightarrow> None
                           | Some sp \<Rightarrow> Some (CGPoint (point_x sp - max 0 offset_x1)
                                                      (point_y sp - max 0 offset_y1)));
          start_position = self_position;
          self_size = element_value size_attr;
          boxes = set_bboxes self_position self_size parents_visible_bbox;
          self_bbox = fst boxes;
          self_visible_bbox = snd boxes
      in case start_position of
           None \<Rightarrow>
             UIElement self_role self_name self_enabled self_absolute_position self_position
               self_size self_bbox self_visible_bbox None (Some '''') (Some '''') None []
               '''' '''' self_max_depth
         | Some sp \<Rightarrow>
            (case self_size of
               None \<Rightarrow>
                 UIElement self_role self_name self_enabled self_absolute_position self_position
                   self_size self_bbox self_visible_bbox None (Some '''') (Some '''') None []
                   '''' '''' self_max_depth
             | Some sz \<Rightarrow>
                (let self_center = (point_x sp + offset_x1 + size_width sz / 2,
                                    point_y sp + offset_y1 + size_height sz / 2);
                     self_description = element_attribute (AXDescription element);
                     self_role_description = element_attribute (AXRoleDescription element);
                     attribute_value = element_attribute (AXValue element)
                 in calculate_hashes
                      (UIElement self_role self_name self_enabled self_absolute_position
                         self_position self_size self_bbox self_visible_bbox (Some self_center)
                         self_description self_role_description
                         (case attribute_value of
                            None \<Rightarrow> None
                          | Some (AXScalar v) \<Rightarrow> Some (ValueScalar v)
                          | Some (AXArray vs) \<Rightarrow> Some (ValueList vs)
                          | Some (AXElementRef v) \<Rightarrow>
                              Some (ValueNode (UIElement_init v offset_x1 offset_y1 None None)))
                         (if self_max_depth = None \<or> 0 < the self_max_depth
                          then get_children (\<lambda>c a b d v. UIElement_init c a b d v)
                                 element offset_x1 offset_y1 self_max_depth self_visible_bbox
                          else [])
                         '''' '''' self_max_depth))))"
  by pat_completeness auto
termination
  by (relation "measure (\<lambda>(element, _). size element)")
     (auto simp: element_attribute_def AXUIElementCopyAttributeValue_def
           dest: size_found_children size_value_element size_value_element [OF sym])

declare UIElement_init.simps [simp del]

section \<open>Auxiliary definitions: the constructor's locals, example elements, stated properties\<close>

text \<open>
  Names for the constructor's locals as functions of its arguments; they are used
  only to state what the constructor returns.
\<close>

definition init_role :: "AXUIElement \<Rightarrow> string" where
  "init_role element = (case AXRole element of None \<Rightarrow> ''No role'' | Some r \<Rightarrow> r)"

definition init_name :: "AXUIElement \<Rightarrow> string option" where
  "init_name element = (case AXTitle element of None \<Rightarrow> None | Some t \<Rightarrow> Some (replace_spaces t))"

definition init_enabled :: "AXUIElement \<Rightarrow> bool" where
  "init_enabled element = (case AXEnabled element of None \<Rightarrow> False | Some b \<Rightarrow> b)"

text \<open>The offset in effect for a node: its own absolute position when it is a window
  with a position, the inherited offset otherwise.\<close>

definition init_offset :: "AXUIElement \<Rightarrow> real \<times> real \<Rightarrow> real \<times> real" where
  "init_offset element offset =
     (case AXPosition element of
        None \<Rightarrow> offset
      | Some sp \<Rightarrow> if init_role element = ''AXWindow'' then (point_x sp, point_y sp) else offset)"

definition init_position :: "AXUIElement \<Rightarrow> real \<times> real \<Rightarrow> CGPoint option" where
  "init_position element offset =
     (case AXPosition element of
        None \<Rightarrow> None
      | Some sp \<Rightarrow> Some (CGPoint (point_x sp - max 0 (fst (init_offset element offset)))
                                 (point_y sp - max 0 (snd (init_offset element offset)))))"

definition init_boxes :: "AXUIElement \<Rightarrow> real \<times> real \<Rightarrow> bbox option \<Rightarrow> bbox option \<times> bbox option" where
  "init_boxes element offset pvb = set_bboxes (init_position element offset) (AXSize element) pvb"

text \<open>
  Example platform trees: a window at (100, 100) of size 800 by 600 with two buttons at
  the same place, of the same size, enabled flag and role; the first button has a
  static text as its child, a description, a role description and a value, the second
  has none of them.
\<close>

definition ex_leaf :: AXUIElement where
  "ex_leaf = AXUIElement (Some ''AXStaticText'') (Some ''label'') (Some True)
     (Some (CGPoint 160 140)) (Some (CGSize 40 10)) None None (Some (AXScalar ''txt'')) None None"

definition ex_button1 :: AXUIElement where
  "ex_button1 = AXUIElement (Some ''AXButton'') (Some ''OK now'') (Some True)
     (Some (CGPoint 150 130)) (Some (CGSize 80 20)) (Some ''confirm'') (Some ''button'')
     (Some (AXScalar ''1'')) (Some [ex_leaf]) None"

definition ex_button2 :: AXUIElement where
  "ex_button2 = AXUIElement (Some ''AXButton'') (Some ''Cancel'') (Some True)
     (Some (CGPoint 150 130)) (Some (CGSize 80 20)) (Some ''dismiss'') None None None None"

definition ex_window :: AXUIElement where
  "ex_window = AXUIElement (Some ''AXWindow'') (Some ''Main'') None
     (Some (CGPoint 100 100)) (Some (CGSize 800 600)) None None None
     (Some [ex_button1, ex_button2]) None"


text \<open>
  The content hash in the words of the specification: the digest of the sorted-content
  digest followed by the ordered-structure digest.
\<close>

definition contentHash_spec :: "UIElement list \<Rightarrow> string" where
  "contentHash_spec cs =
     (if cs = [] then '''' else hash_from_string (content_hash cs @ content_structure_hash cs))"


text \<open>
  The relative-position property of a built tree, in the words of the specification:
  the origin of a node is its own absolute position when it is a window with a
  position, and the inherited origin otherwise; the stored position is the absolute
  position minus \<open>max(0, origin)\<close>; the children and an element-valued value inherit
  the node's origin.
\<close>

fun positions_relative :: "real \<times> real \<Rightarrow> UIElement \<Rightarrow> bool" where
  "positions_relative offset (UIElement r n e ap p s b vb c d rd v cs i ci md) =
     (let origin = (case ap of
                      None \<Rightarrow> offset
                    | Some a \<Rightarrow> if r = ''AXWindow'' then (point_x a, point_y a) else offset)
      in p = (case ap of
                None \<Rightarrow> None
              | Some a \<Rightarrow> Some (CGPoint (point_x a - max 0 (fst origin))
                                       (point_y a - max 0 (snd origin))))
         \<and> (\<forall>child \<in> set cs. positions_relative origin child)
         \<and> (case v of Some (ValueNode w) \<Rightarrow> positions_relative origin w | _ \<Rightarrow> True))"

text \<open>A group without a position attribute.\<close>

definition ex_toolbar :: AXUIElement where
  "ex_toolbar = AXUIElement (Some ''AXGroup'') (Some ''Tool bar'') (Some True)
     None (Some (CGSize 200 40)) (Some ''toolbar'') (Some ''group'')
     (Some (AXScalar ''v'')) (Some [ex_leaf]) None"

text \<open>A cell whose value attribute is the first example button.\<close>

definition ex_cell :: AXUIElement where
  "ex_cell = AXUIElement (Some ''AXCell'') None (Some True)
     (Some (CGPoint 10 10)) (Some (CGSize 20 20)) None None
     (Some (AXElementRef ex_button1)) None None"


section \<open>The constructor's result, field by field\<close>

lemma UIElement_init_early:
  assumes "AXPosition element = None \<or> AXSize element = None"
  shows "UIElement_init element ox oy md pvb =
           UIElement (init_role element) (init_name element) (init_enabled element)
             (AXPosition element) (init_position element (ox, oy)) (AXSize element)
             None None None (Some '''') (Some '''') None [] '''' '''' md"
  using assms
  by (auto simp: UIElement_init.simps [of element] Let_def element_attribute_def
        AXUIElementCopyAttributeValue_def element_value_def init_role_def init_name_def
        init_enabled_def init_position_def init_offset_def set_bboxes_def
        split: option.splits)

lemma UIElement_init_full:
  assumes "AXPosition element \<noteq> None" and "AXSize element \<noteq> None"
  shows "UIElement_init element ox oy md pvb =
           calculate_hashes
             (UIElement (init_role element) (init_name element) (init_enabled element)
                (AXPosition element) (init_position element (ox, oy)) (AXSize element)
                (fst (init_boxes element (ox, oy) pvb)) (snd (init_boxes element (ox, oy) pvb))
                (Some (point_x (the (init_position element (ox, oy)))
                         + fst (init_offset element (ox, oy))
                         + size_width (the (AXSize element)) / 2,
                       point_y (the (init_position element (ox, oy)))
                         + snd (init_offset element (ox, oy))
                         + size_height (the (AXSize element)) / 2))
                (AXDescription element) (AXRoleDescription element)
                (case AXValue element of
                   None \<Rightarrow> None
                 | Some (AXScalar v) \<Rightarrow> Some (ValueScalar v)
                 | Some (AXArray vs) \<Rightarrow> Some (ValueList vs)
                 | Some (AXElementRef v) \<Rightarrow>
                     Some (ValueNode (UIElement_init v (fst (init_offset element (ox, oy)))
                                        (snd (init_offset element (ox, oy))) None None)))
                (if md = None \<or> 0 < the md
                 then map (\<lambda>c. UIElement_init c (fst (init_offset element (ox, oy)))
                                  (snd (init_offset element (ox, oy)))
                                  (case md of None \<Rightarrow> None | Some d \<Rightarrow> Some (d - 1))
                                  (snd (init_boxes element (ox, oy) pvb)))
                          (found_children element)
                 else [])
                [] [] md)"
proof -
  from assms obtain sp sz where "AXPosition element = Some sp" "AXSize element = Some sz"
    by auto
  then show ?thesis
    by (simp add: UIElement_init.simps [of element] Let_def element_attribute_def
          AXUIElementCopyAttributeValue_def element_value_def init_role_def init_name_def
          init_enabled_def init_position_def init_offset_def init_boxes_def get_children_def
          cong: option.case_cong ax_value.case_cong)
qed

lemma calculate_hashes_fields:
  "role (calculate_hashes n) = role n"
  "name (calculate_hashes n) = name n"
  "enabled (calculate_hashes n) = enabled n"
  "absolute_position (calculate_hashes n) = absolute_position n"
  "position (calculate_hashes n) = position n"
  "size' (calculate_hashes n) = size' n"
  "bbox (calculate_hashes n) = bbox n"
  "visible_bbox (calculate_hashes n) = visible_bbox n"
  "center (calculate_hashes n) = center n"
  "description (calculate_hashes n) = description n"
  "role_description (calculate_hashes n) = role_description n"
  "value' (calculate_hashes n) = value' n"
  "children (calculate_hashes n) = children n"
  "max_depth (calculate_hashes n) = max_depth n"
  "identifier' (calculate_hashes n) = component_hash n"
  "content_identifier (calculate_hashes n) = children_content_hash (children n)"
  by (cases n; simp)+

declare calculate_hashes.simps [simp del]

lemma component_hash_fields:
  "position a = position b \<Longrightarrow> size' a = size' b \<Longrightarrow> enabled a = enabled b \<Longrightarrow> role a = role b
   \<Longrightarrow> component_hash a = component_hash b"
  by (simp add: component_hash_def cong: option.case_cong)

lemma component_hash_calculate_hashes:
  "component_hash (calculate_hashes n) = component_hash n"
  by (rule component_hash_fields) (simp_all add: calculate_hashes_fields)

lemma component_hash_absent:
  "position n = None \<or> size' n = None \<Longrightarrow> component_hash n = ''''"
  by (auto simp: component_hash_def split: option.splits)

lemma identifier_init:
  "identifier' (UIElement_init element ox oy md pvb) =
     component_hash (UIElement_init element ox oy md pvb)"
proof (cases "AXPosition element = None \<or> AXSize element = None")
  case True
  then show ?thesis
    by (auto simp: UIElement_init_early component_hash_def init_position_def split: option.splits)
next
  case False
  then have "AXPosition element \<noteq> None" and "AXSize element \<noteq> None"
    by simp_all
  then show ?thesis
    by (simp add: UIElement_init_full calculate_hashes_fields component_hash_calculate_hashes)
qed

lemmas init_eval =
  init_role_def init_name_def init_enabled_def init_offset_def init_position_def init_boxes_def
  set_bboxes_def py_int_def replace_spaces_def found_children_def element_attribute_children_def
  element_attribute_def AXUIElementCopyAttributeValue_def AXUIElementCopyAttributeValues_def
  calculate_hashes_fields

lemma children_init:
  "children (UIElement_init element ox oy md pvb) =
     (if AXPosition element = None \<or> AXSize element = None then []
      else if md = None \<or> 0 < the md
      then map (\<lambda>c. UIElement_init c (fst (init_offset element (ox, oy)))
                       (snd (init_offset element (ox, oy)))
                       (case md of None \<Rightarrow> None | Some d \<Rightarrow> Some (d - 1))
                       (snd (init_boxes element (ox, oy) pvb)))
               (found_children element)
      else [])"
proof (cases "AXPosition element = None \<or> AXSize element = None")
  case True
  then show ?thesis by (simp add: UIElement_init_early)
next
  case False
  then have "AXPosition element \<noteq> None" and "AXSize element \<noteq> None"
    by simp_all
  then show ?thesis
    by (auto simp: UIElement_init_full calculate_hashes_fields)
qed

lemma length_le_bytes: "length (le_bytes k n) = k"
  by (simp add: le_bytes_def)

lemma length_hex_bytes: "length (concat (map hex_byte bs)) = 2 * length bs"
  by (induction bs) (simp_all add: hex_byte_def)

lemma length_md5_hexdigest: "length (md5_hexdigest s) = 32"
  by (simp add: md5_hexdigest_def length_hex_bytes length_le_bytes split: prod.splits)

lemma hash_from_string_empty_iff: "hash_from_string s = '''' \<longleftrightarrow> s = ''''"
proof
  assume h: "hash_from_string s = ''''"
  show "s = ''''"
  proof (rule ccontr)
    assume "s \<noteq> ''''"
    then have "length (hash_from_string s) = 32"
      by (simp add: hash_from_string_def length_md5_hexdigest)
    with h show False by simp
  qed
next
  assume "s = ''''"
  then show "hash_from_string s = ''''" by (simp add: hash_from_string_def)
qed

lemma length_hash_from_string: "s \<noteq> '''' \<Longrightarrow> length (hash_from_string s) = 32"
  by (simp add: hash_from_string_def length_md5_hexdigest)

lemma max_depth_init: "max_depth (UIElement_init e ox oy md pvb) = md"
proof (cases "AXPosition e = None \<or> AXSize e = None")
  case True
  then show ?thesis by (simp add: UIElement_init_early)
next
  case False
  then have "AXPosition e \<noteq> None" and "AXSize e \<noteq> None" by simp_all
  then show ?thesis by (simp add: UIElement_init_full calculate_hashes_fields)
qed

lemma own_fields_init:
  "role (UIElement_init e ox oy md pvb) = init_role e"
  "name (UIElement_init e ox oy md pvb) = init_name e"
  "enabled (UIElement_init e ox oy md pvb) = init_enabled e"
  "absolute_position (UIElement_init e ox oy md pvb) = AXPosition e"
  "position (UIElement_init e ox oy md pvb) = init_position e (ox, oy)"
  "size' (UIElement_init e ox oy md pvb) = AXSize e"
  by (cases "AXPosition e = None \<or> AXSize e = None";
      auto simp: UIElement_init_early UIElement_init_full calculate_hashes_fields)+



lemma unpopulated_fields_init:
  assumes "AXPosition e = None \<or> AXSize e = None"
  shows "description (UIElement_init e ox oy md pvb) = Some ''''"
    and "role_description (UIElement_init e ox oy md pvb) = Some ''''"
    and "value' (UIElement_init e ox oy md pvb) = None"
    and "center (UIElement_init e ox oy md pvb) = None"
  using assms by (simp_all add: UIElement_init_early)





lemma py_join_Nil_sep: "sep = [] \<Longrightarrow> py_join sep xs = concat xs"
  by (induction sep xs rule: py_join.induct) simp_all

lemma py_join_empty_sep: "py_join '''' xs = concat xs"
  by (simp add: py_join_Nil_sep)

lemma length_py_join_chars:
  "s \<noteq> [] \<Longrightarrow>
     length (py_join sep (map (\<lambda>c. [c]) s)) = length s + (length s - 1) * length sep"
proof (induction s)
  case Nil
  then show ?case by simp
next
  case (Cons c s)
  then show ?case by (cases s) simp_all
qed

lemma py_join_chars_empty_iff: "py_join sep (map (\<lambda>c. [c]) s) = [] \<longleftrightarrow> s = []"
proof (cases s)
  case Nil
  then show ?thesis by simp
next
  case (Cons c t)
  then show ?thesis by (cases t) simp_all
qed

lemma content_hash_empty_iff:
  "content_hash cs = '''' \<longleftrightarrow> (\<forall>c \<in> set cs. content_identifier c = '''')"
  by (auto simp: content_hash_def hash_from_string_empty_iff py_join_empty_sep)

lemma content_structure_hash_empty_iff:
  "content_structure_hash cs = '''' \<longleftrightarrow> (\<forall>c \<in> set cs. identifier' c = '''')"
  by (auto simp: content_structure_hash_def hash_from_string_empty_iff py_join_empty_sep)

lemma children_content_hash_empty_iff:
  "children_content_hash cs = '''' \<longleftrightarrow> (\<forall>c \<in> set cs. identifier' c = '''')"
  by (cases cs)
     (auto simp: children_content_hash_def hash_from_string_empty_iff py_join_chars_empty_iff
        content_structure_hash_empty_iff)

lemma children_content_hash_nonempty:
  "cs \<noteq> [] \<Longrightarrow>
     children_content_hash cs
       = hash_from_string (py_join (content_hash cs) (map (\<lambda>c. [c]) (content_structure_hash cs)))"
  by (simp add: children_content_hash_def)

lemma children_content_hash_leaves:
  "content_hash cs = '''' \<Longrightarrow> children_content_hash cs = contentHash_spec cs"
  by (simp add: children_content_hash_def contentHash_spec_def py_join_empty_sep
        concat_map_singleton)

lemma component_hash_nonempty:
  "position n \<noteq> None \<Longrightarrow> size' n \<noteq> None \<Longrightarrow> component_hash n \<noteq> ''''"
  by (auto simp: component_hash_def Let_def hash_from_string_empty_iff)

lemma identifier_init_nonempty:
  "AXPosition e \<noteq> None \<Longrightarrow> AXSize e \<noteq> None \<Longrightarrow>
     identifier' (UIElement_init e ox oy md pvb) \<noteq> ''''"
  unfolding identifier_init
  by (rule component_hash_nonempty) (auto simp: own_fields_init init_position_def)

lemma content_identifier_init:
  "content_identifier (UIElement_init e ox oy md pvb)
     = children_content_hash (children (UIElement_init e ox oy md pvb))"
proof (cases "AXPosition e = None \<or> AXSize e = None")
  case True
  then show ?thesis by (simp add: UIElement_init_early children_content_hash_def)
next
  case False
  then have "AXPosition e \<noteq> None" and "AXSize e \<noteq> None" by simp_all
  then show ?thesis by (simp add: UIElement_init_full calculate_hashes_fields)
qed


section \<open>The digest on a test vector\<close>

text \<open>
  The digest model reproduces the RFC 1321 test vector for the message \<open>abc\<close>; the
  simplifier runs the 64 rounds on the padded block.
\<close>

lemma replicate_num: "replicate (numeral k) v = v # replicate (pred_numeral k) v"
  by (simp add: numeral_eq_Suc)

lemma md5_hexdigest_abc: "md5_hexdigest ''abc'' = ''900150983cd24fb0d6963f7d28e17f72''"
  by (simp add: md5_hexdigest_def md5_blocks_def md5_pad_def le_bytes_def hex_byte_def
        hex_digit_def md5_F_def md5_g_def md5_K_def md5_s_def rotl32_def upt_rec replicate_num)

lemma ex_window_children_C1:
  "children (UIElement_init ex_window 0 0 None None)
     = [UIElement_init ex_button1 100 100 None (Some (0, 0, 800, 600)),
        UIElement_init ex_button2 100 100 None (Some (0, 0, 800, 600))]"
  by (simp add: children_init ex_window_def init_eval)

lemma ex_window_digests:
  "length (content_hash (children (UIElement_init ex_window 0 0 None None))) = 32"
  "length (content_structure_hash (children (UIElement_init ex_window 0 0 None None))) = 32"
proof -
  have "children (UIElement_init ex_button1 100 100 None (Some (0, 0, 800, 600)))
          = [UIElement_init ex_leaf 100 100 None (Some (50, 30, 130, 50))]"
    by (simp add: children_init ex_button1_def init_eval)
  moreover have "identifier' (UIElement_init ex_leaf 100 100 None (Some (50, 30, 130, 50))) \<noteq> ''''"
    by (rule identifier_init_nonempty) (simp_all add: ex_leaf_def)
  ultimately have
    "content_identifier (UIElement_init ex_button1 100 100 None (Some (0, 0, 800, 600))) \<noteq> ''''"
    by (simp add: content_identifier_init children_content_hash_empty_iff)
  then have "content_hash (children (UIElement_init ex_window 0 0 None None)) \<noteq> ''''"
    by (simp add: content_hash_empty_iff ex_window_children_C1)
  then show "length (content_hash (children (UIElement_init ex_window 0 0 None None))) = 32"
    by (simp add: content_hash_def length_hash_from_string hash_from_string_empty_iff)
  have "identifier' (UIElement_init ex_button1 100 100 None (Some (0, 0, 800, 600))) \<noteq> ''''"
    by (rule identifier_init_nonempty) (simp_all add: ex_button1_def)
  then have "content_structure_hash (children (UIElement_init ex_window 0 0 None None)) \<noteq> ''''"
    by (simp add: content_structure_hash_empty_iff ex_window_children_C1)
  then show "length (content_structure_hash (children (UIElement_init ex_window 0 0 None None))) = 32"
    by (simp add: content_structure_hash_def length_hash_from_string hash_from_string_empty_iff)
qed

section \<open>The content hash\<close>

text \<open>
  Claim C1.  The example window has a child with a child of its own, so both digests
  of its children are 32 characters long.  The content identifier of the window is the
  digest of the ordered-structure digest with the sorted-content digest spliced between
  each two of its characters, a string of 1024 characters; the claim asks for the
  digest of the two digests one after the other, a string of 64 characters.
\<close>

theorem content_hash_splices_digests:
  "content_identifier (UIElement_init ex_window 0 0 None None)
     = md5_hexdigest
         (py_join (content_hash (children (UIElement_init ex_window 0 0 None None)))
            (map (\<lambda>c. [c]) (content_structure_hash (children (UIElement_init ex_window 0 0 None None)))))
   \<and> length (py_join (content_hash (children (UIElement_init ex_window 0 0 None None)))
            (map (\<lambda>c. [c]) (content_structure_hash (children (UIElement_init ex_window 0 0 None None)))))
       = 1024
   \<and> contentHash_spec (children (UIElement_init ex_window 0 0 None None))
     = md5_hexdigest
         (content_hash (children (UIElement_init ex_window 0 0 None None))
          @ content_structure_hash (children (UIElement_init ex_window 0 0 None None)))
   \<and> length (content_hash (children (UIElement_init ex_window 0 0 None None))
          @ content_structure_hash (children (UIElement_init ex_window 0 0 None None)))
       = 64"
proof -
  let ?cs = "children (UIElement_init ex_window 0 0 None None)"
  have ne: "?cs \<noteq> []" by (simp add: ex_window_children_C1)
  have s: "content_structure_hash ?cs \<noteq> []" "content_hash ?cs \<noteq> []"
    using ex_window_digests by auto
  have l: "length (py_join (content_hash ?cs) (map (\<lambda>c. [c]) (content_structure_hash ?cs))) = 1024"
    using s by (simp add: length_py_join_chars ex_window_digests)
  then have j: "py_join (content_hash ?cs) (map (\<lambda>c. [c]) (content_structure_hash ?cs)) \<noteq> ''''"
    by auto
  have a: "content_identifier (UIElement_init ex_window 0 0 None None)
     = md5_hexdigest (py_join (content_hash ?cs) (map (\<lambda>c. [c]) (content_structure_hash ?cs)))"
    using ne j by (simp add: content_identifier_init children_content_hash_nonempty hash_from_string_def)
  have b: "contentHash_spec ?cs = md5_hexdigest (content_hash ?cs @ content_structure_hash ?cs)"
    using ne s by (simp add: contentHash_spec_def hash_from_string_def)
  from a b l show ?thesis by (simp add: ex_window_digests)
qed

section \<open>The structural hash\<close>

text \<open>
  Claim C2.  The identifier of a built node is \<open>component_hash\<close> of the node, which
  reads only its position, size, enabled flag and role: two built nodes that agree on
  these four fields have the same identifier, whatever their names, descriptions,
  values and children are; and the identifier is the empty string when the position or
  the size is absent.
\<close>

theorem structural_hash_pure:
  assumes "n = UIElement_init e ox oy md pvb" and "m = UIElement_init e' ox' oy' md' pvb'"
  shows "(position n = position m \<and> size' n = size' m \<and> enabled n = enabled m \<and> role n = role m
            \<longrightarrow> identifier' n = identifier' m)
         \<and> (position n = None \<or> size' n = None \<longrightarrow> identifier' n = '''')"
  using assms
  by (auto simp: identifier_init component_hash_absent intro: component_hash_fields)

theorem structural_hash_pure_witness:
  "position (UIElement_init ex_button1 100 100 None None) = position (UIElement_init ex_button2 100 100 (Some 0) None)
   \<and> name (UIElement_init ex_button1 100 100 None None) \<noteq> name (UIElement_init ex_button2 100 100 (Some 0) None)
   \<and> children (UIElement_init ex_button1 100 100 None None) \<noteq> children (UIElement_init ex_button2 100 100 (Some 0) None)
   \<and> identifier' (UIElement_init ex_button1 100 100 None None) = identifier' (UIElement_init ex_button2 100 100 (Some 0) None)"
  using structural_hash_pure [of "UIElement_init ex_button1 100 100 None None" ex_button1 100 100 None None
      "UIElement_init ex_button2 100 100 (Some 0) None" ex_button2 100 100 "Some 0" None]
  by (simp add: UIElement_init_full ex_button1_def ex_button2_def ex_leaf_def init_eval)





section \<open>Reordering the children\<close>




section \<open>The visible bounding box\<close>

lemma box_region_inter:
  "box_region (max b0 p0, max b1 p1, min b2 p2, min b3 p3)
     = box_region (b0, b1, b2, b3) \<inter> box_region (p0, p1, p2, p3)"
  by (auto simp: max_def min_def)

lemma box_region_separated:
  "b0 > p2 \<or> b1 > p3 \<or> b2 < p0 \<or> b3 < p1 \<Longrightarrow>
     box_region (b0, b1, b2, b3) \<inter> box_region (p0, p1, p2, p3) = {}"
  by (auto simp: set_eq_iff)

lemma box_region_meet:
  assumes "\<not> (b0 > p2 \<or> b1 > p3 \<or> b2 < p0 \<or> b3 < p1)"
    and "well_formed (b0, b1, b2, b3)" and "well_formed (p0, p1, p2, p3)"
  shows "(real_of_int (max b0 p0), real_of_int (max b1 p1))
           \<in> box_region (b0, b1, b2, b3) \<inter> box_region (p0, p1, p2, p3)"
  using assms by (auto simp: max_def)

text \<open>
  A child 50 wide whose left edge lies on the right edge of the parent's visible box
  shares no area with it, yet its visible box is not absent: it is the zero-area box
  \<open>[800, 0, 800, 50]\<close>.
\<close>

theorem counterexample_touching_boxes:
  "set_bboxes (Some (CGPoint 800 0)) (Some (CGSize 50 50)) (Some (0, 0, 800, 600))
     = (Some (800, 0, 850, 50), Some (800, 0, 800, 50))
   \<and> box_area (800, 0, 800, 50) = 0"
  by (simp add: set_bboxes_def py_int_def)

text \<open>
  Claim C4, as the code has it.  Without a parent box the visible box is the node's own
  box.  With a parent box, a present visible box covers exactly the intersection of the
  closed regions of the node's box and the parent's box, so it lies inside the parent's
  box; an absent visible box means that the two closed regions are disjoint; and for
  well-formed boxes disjoint closed regions give an absent visible box.  Boxes that
  only touch are not disjoint as closed regions.
\<close>

theorem visible_bbox_clipping:
  assumes "set_bboxes pos sz pvb = (bb, vb)"
  shows "(pvb = None \<longrightarrow> vb = bb)
       \<and> (\<forall>p v. pvb = Some p \<and> vb = Some v \<longrightarrow>
             (\<exists>b. bb = Some b \<and> box_region v = box_region b \<inter> box_region p)
             \<and> box_region v \<subseteq> box_region p)
       \<and> (\<forall>p b. pvb = Some p \<and> bb = Some b \<and> vb = None \<longrightarrow>
             box_region b \<inter> box_region p = {})
       \<and> (\<forall>p b. pvb = Some p \<and> bb = Some b \<and> well_formed b \<and> well_formed p
                \<and> box_region b \<inter> box_region p = {} \<longrightarrow> vb = None)"
proof (intro conjI allI impI)
  assume "pvb = None"
  with assms show "vb = bb"
    by (auto simp: set_bboxes_def Let_def split: option.splits)
next
  fix p v assume h: "pvb = Some p \<and> vb = Some v"
  obtain p0 p1 p2 p3 where p: "p = (p0, p1, p2, p3)" by (cases p)
  from assms h p show "\<exists>b. bb = Some b \<and> box_region v = box_region b \<inter> box_region p"
    by (auto simp: set_bboxes_def Let_def box_region_inter simp del: box_region.simps
          split: option.splits if_splits)
  then show "box_region v \<subseteq> box_region p" by blast
next
  fix p b assume h: "pvb = Some p \<and> bb = Some b \<and> vb = None"
  obtain p0 p1 p2 p3 where p: "p = (p0, p1, p2, p3)" by (cases p)
  from assms h p show "box_region b \<inter> box_region p = {}"
    by (auto simp: set_bboxes_def Let_def simp del: box_region.simps
          split: option.splits if_splits intro!: box_region_separated)
next
  fix p b
  assume h: "pvb = Some p \<and> bb = Some b \<and> well_formed b \<and> well_formed p
               \<and> box_region b \<inter> box_region p = {}"
  obtain p0 p1 p2 p3 where p: "p = (p0, p1, p2, p3)" by (cases p)
  obtain b0 b1 b2 b3 where b: "b = (b0, b1, b2, b3)" by (cases b)
  show "vb = None"
  proof (rule ccontr)
    assume "vb \<noteq> None"
    with assms h p b have "\<not> (b0 > p2 \<or> b1 > p3 \<or> b2 < p0 \<or> b3 < p1)"
      by (auto simp: set_bboxes_def Let_def split: option.splits if_splits)
    from box_region_meet [OF this] h p b show False
      by blast
  qed
qed

theorem visible_bbox_clipping_witness:
  "set_bboxes (Some (CGPoint 50 30)) (Some (CGSize 80 20)) None
     = (Some (50, 30, 130, 50), Some (50, 30, 130, 50))
   \<and> set_bboxes (Some (CGPoint 750 30)) (Some (CGSize 80 20)) (Some (0, 0, 800, 600))
     = (Some (750, 30, 830, 50), Some (750, 30, 800, 50))
   \<and> box_region (750, 30, 800, 50) \<subseteq> box_region (0, 0, 800, 600)
   \<and> set_bboxes (Some (CGPoint 900 0)) (Some (CGSize 50 50)) (Some (0, 0, 800, 600))
     = (Some (900, 0, 950, 50), None)
   \<and> box_region (900, 0, 950, 50) \<inter> box_region (0, 0, 800, 600) = {}"
proof -
  have a: "set_bboxes (Some (CGPoint 50 30)) (Some (CGSize 80 20)) None
     = (Some (50, 30, 130, 50), Some (50, 30, 130, 50))"
    by (simp add: set_bboxes_def py_int_def)
  have b: "set_bboxes (Some (CGPoint 750 30)) (Some (CGSize 80 20)) (Some (0, 0, 800, 600))
     = (Some (750, 30, 830, 50), Some (750, 30, 800, 50))"
    by (simp add: set_bboxes_def py_int_def)
  have c: "set_bboxes (Some (CGPoint 900 0)) (Some (CGSize 50 50)) (Some (0, 0, 800, 600))
     = (Some (900, 0, 950, 50), None)"
    by (simp add: set_bboxes_def py_int_def)
  from visible_bbox_clipping [OF b] have "box_region (750, 30, 800, 50) \<subseteq> box_region (0, 0, 800, 600)"
    by blast
  moreover from visible_bbox_clipping [OF c]
  have "box_region (900, 0, 950, 50) \<inter> box_region (0, 0, 800, 600) = {}"
    by blast
  ultimately show ?thesis using a b c by blast
qed

lemma positions_relative_calculate_hashes:
  "positions_relative offset (calculate_hashes n) = positions_relative offset n"
  by (cases n) (simp add: calculate_hashes.simps)

section \<open>Positions relative to the window\<close>

text \<open>
  Claim C5.  In the tree built from any element, every node stores the absolute
  position the platform reports, and its position is that absolute position minus
  \<open>max(0, offset)\<close> componentwise, where the offset is the absolute position of the
  nearest window among the node and its ancestors, or the offset given to the build
  when there is none.
\<close>

theorem window_relative_positions:
  "positions_relative (ox, oy) (UIElement_init e ox oy md pvb)
   \<and> absolute_position (UIElement_init e ox oy md pvb) = AXPosition e"
proof -
  have "positions_relative (ox, oy) (UIElement_init e ox oy md pvb)"
  proof (induction e arbitrary: ox oy md pvb rule: measure_induct_rule [of size])
    case (less e)
    show ?case
    proof (cases "AXPosition e = None \<or> AXSize e = None")
      case True
      then show ?thesis
        by (simp add: UIElement_init_early init_position_def init_offset_def
              cong: option.case_cong)
    next
      case False
      then have g: "AXPosition e \<noteq> None" "AXSize e \<noteq> None" by simp_all
      have kids: "positions_relative (init_offset e (ox, oy))
                    (UIElement_init c (fst (init_offset e (ox, oy))) (snd (init_offset e (ox, oy))) m b)"
        if "c \<in> set (found_children e)" for c m b
        using less [OF size_found_children [OF that], of "fst (init_offset e (ox, oy))"
            "snd (init_offset e (ox, oy))" m b]
        by simp
      have val: "positions_relative (init_offset e (ox, oy))
                    (UIElement_init w (fst (init_offset e (ox, oy))) (snd (init_offset e (ox, oy))) None None)"
        if "AXValue e = Some (AXElementRef w)" for w
        using less [OF size_value_element [OF that], of "fst (init_offset e (ox, oy))"
            "snd (init_offset e (ox, oy))" None None]
        by simp
      have origin: "(case AXPosition e of
                      None \<Rightarrow> (ox, oy)
                    | Some a \<Rightarrow> if init_role e = ''AXWindow'' then (point_x a, point_y a) else (ox, oy))
                    = init_offset e (ox, oy)"
        by (simp add: init_offset_def)
      show ?thesis
        using g kids val
        by (simp add: UIElement_init_full positions_relative_calculate_hashes origin)
           (auto simp: init_position_def Let_def split: option.splits ax_value.splits)
    qed
  qed
  then show ?thesis by (simp add: own_fields_init)
qed

theorem window_relative_positions_witness:
  "positions_relative (0, 0) (UIElement_init ex_window 0 0 None None)
   \<and> absolute_position (UIElement_init ex_window 0 0 None None) = Some (CGPoint 100 100)
   \<and> position (UIElement_init ex_window 0 0 None None) = Some (CGPoint 0 0)
   \<and> map absolute_position (children (UIElement_init ex_window 0 0 None None))
        = [Some (CGPoint 150 130), Some (CGPoint 150 130)]
   \<and> map position (children (UIElement_init ex_window 0 0 None None))
        = [Some (CGPoint 50 30), Some (CGPoint 50 30)]"
  using window_relative_positions [of 0 0 ex_window None None]
  by (simp add: children_init own_fields_init ex_window_def ex_button1_def ex_button2_def init_eval)


section \<open>The depth limit\<close>



section \<open>Nodes without geometry\<close>

text \<open>
  Claim C7.  A tool bar whose position the platform does not report, with a
  description, a role description, a value and one child.  The constructor returns
  right after the boxes: the node keeps the initial empty description and role
  description, no value and no children, although the platform reports all four.
\<close>

theorem missing_geometry_skips_fields:
  "AXDescription ex_toolbar = Some ''toolbar''
   \<and> description (UIElement_init ex_toolbar 0 0 None None) = Some ''''
   \<and> AXRoleDescription ex_toolbar = Some ''group''
   \<and> role_description (UIElement_init ex_toolbar 0 0 None None) = Some ''''
   \<and> AXValue ex_toolbar = Some (AXScalar ''v'')
   \<and> value' (UIElement_init ex_toolbar 0 0 None None) = None
   \<and> found_children ex_toolbar = [ex_leaf]
   \<and> children (UIElement_init ex_toolbar 0 0 None None) = []
   \<and> bbox (UIElement_init ex_toolbar 0 0 None None) = None
   \<and> visible_bbox (UIElement_init ex_toolbar 0 0 None None) = None
   \<and> center (UIElement_init ex_toolbar 0 0 None None) = None"
  by (simp add: UIElement_init_early ex_toolbar_def init_eval)

section \<open>A value that is an accessibility element\<close>

text \<open>
  A cell whose value is the first example button, built with depth limit 0.  The value
  node is the button built without a depth limit, and it has the button's child.
\<close>

theorem counterexample_value_node_expanded:
  "value' (UIElement_init ex_cell 0 0 (Some 0) None)
     = Some (ValueNode (UIElement_init ex_button1 0 0 None None))
   \<and> children (UIElement_init ex_cell 0 0 (Some 0) None) = []
   \<and> length (children (UIElement_init ex_button1 0 0 None None)) = 1"
  by (simp add: UIElement_init_full children_init ex_cell_def ex_button1_def init_eval)

text \<open>
  Claim C8, as the code has it.  An element-valued value attribute is stored as a node
  built by the same constructor with the node's offset, no parent box and no depth
  limit, whatever the depth limit of the node is: when the value element has a position
  and a size, every child the platform reports for it is built.
\<close>

theorem value_node_unlimited:
  assumes "AXPosition e \<noteq> None" and "AXSize e \<noteq> None"
    and "AXValue e = Some (AXElementRef v)"
  shows "value' (UIElement_init e ox oy md pvb)
           = Some (ValueNode (UIElement_init v (fst (init_offset e (ox, oy)))
                                (snd (init_offset e (ox, oy))) None None))
         \<and> max_depth (UIElement_init v (fst (init_offset e (ox, oy)))
                          (snd (init_offset e (ox, oy))) None None) = None
         \<and> (AXPosition v \<noteq> None \<and> AXSize v \<noteq> None \<longrightarrow>
              length (children (UIElement_init v (fst (init_offset e (ox, oy)))
                                  (snd (init_offset e (ox, oy))) None None))
                = length (found_children v))"
  using assms
  by (simp add: UIElement_init_full [of e] calculate_hashes_fields children_init max_depth_init)

theorem value_node_unlimited_witness:
  "AXPosition ex_cell \<noteq> None \<and> AXSize ex_cell \<noteq> None
   \<and> AXValue ex_cell = Some (AXElementRef ex_button1)
   \<and> AXPosition ex_button1 \<noteq> None \<and> AXSize ex_button1 \<noteq> None
   \<and> value' (UIElement_init ex_cell 0 0 (Some 0) None)
        = Some (ValueNode (UIElement_init ex_button1 0 0 None None))
   \<and> length (children (UIElement_init ex_button1 0 0 None None)) = length (found_children ex_button1)"
proof -
  have a: "AXPosition ex_cell \<noteq> None" and b: "AXSize ex_cell \<noteq> None"
    and c: "AXValue ex_cell = Some (AXElementRef ex_button1)"
    by (simp_all add: ex_cell_def)
  have d: "AXPosition ex_button1 \<noteq> None \<and> AXSize ex_button1 \<noteq> None"
    by (simp add: ex_button1_def)
  have f: "init_offset ex_cell (0, 0) = (0, 0)"
    by (simp add: ex_cell_def init_offset_def init_role_def)
  from value_node_unlimited [OF a b c, of 0 0 "Some 0" None] a b c d f show ?thesis
    by simp
qed

section \<open>The center point\<close>

text \<open>
  The button of the example window is built with the window's offset (100, 100).  Its
  absolute position is (150, 130) and its size 80 by 20; the stored center is
  (190, 140), not (150 + 100 + 40, 130 + 100 + 10).
\<close>

theorem counterexample_center:
  "absolute_position (UIElement_init ex_button2 100 100 None None) = Some (CGPoint 150 130)
   \<and> init_offset ex_button2 (100, 100) = (100, 100)
   \<and> size' (UIElement_init ex_button2 100 100 None None) = Some (CGSize 80 20)
   \<and> center (UIElement_init ex_button2 100 100 None None) = Some (190, 140)
   \<and> center (UIElement_init ex_button2 100 100 None None)
         \<noteq> Some (150 + 100 + 80 / 2, 130 + 100 + 20 / 2)"
  by (simp add: UIElement_init_full ex_button2_def init_eval)

text \<open>
  Claim C9, as the code has it.  \<open>start_position\<close> and \<open>self.position\<close> are one object,
  so the center is computed from the adjusted position: it is the absolute position
  minus \<open>max(0, offset)\<close>, plus the offset, plus half the size.  For an offset that is
  not negative this is the absolute position plus half the size.
\<close>

theorem center_formula:
  assumes "AXPosition e = Some a" and "AXSize e = Some s"
    and "init_offset e (ox, oy) = (fx, fy)"
  shows "center (UIElement_init e ox oy md pvb)
           = Some (point_x a - max 0 fx + fx + size_width s / 2,
                   point_y a - max 0 fy + fy + size_height s / 2)
         \<and> (0 \<le> fx \<and> 0 \<le> fy \<longrightarrow>
              center (UIElement_init e ox oy md pvb)
                = Some (point_x a + size_width s / 2, point_y a + size_height s / 2))"
  using assms
  by (simp add: UIElement_init_full calculate_hashes_fields init_position_def)

theorem center_formula_witness:
  "AXPosition ex_window = Some (CGPoint 100 100) \<and> AXSize ex_window = Some (CGSize 800 600)
   \<and> init_offset ex_window (0, 0) = (100, 100)
   \<and> center (UIElement_init ex_window 0 0 None None) = Some (500, 400)"
proof -
  have a: "AXPosition ex_window = Some (CGPoint 100 100)" by (simp add: ex_window_def)
  have s: "AXSize ex_window = Some (CGSize 800 600)" by (simp add: ex_window_def)
  have f: "init_offset ex_window (0, 0) = (100, 100)"
    by (simp add: ex_window_def init_offset_def init_role_def)
  from center_formula [OF a s f, of None None] a s f show ?thesis by simp
qed

section \<open>The number of children\<close>




end
